theory Spec2Isabelle
  imports Complex_Main "HOL-Library.Word"
begin

section \<open>JavaScript values as the controller sees them\<close>

text \<open>
  The program is \<^verbatim>\<open>src/frontend/app.js\<close>, a browser-side controller. It reads JSON
  bodies, branches on truthiness and status codes, and writes strings into DOM elements.

  A JavaScript string is a sequence of UTF-16 code units, so \<open>jsstring\<close> is a list of
  16-bit words. \<open>js\<close> embeds an ASCII literal.
\<close>

type_synonym jsstring = "16 word list"

definition js :: "string \<Rightarrow> jsstring" where
  "js s = map of_char s"

text \<open>
  Numbers are IEEE doubles. Every finite double is a rational number, and the program only
  tests a number against zero and prints it, so a finite double is modelled by its exact
  value (both zeros are \<open>Finite 0\<close>). Printing a number and reading a number out of a
  string are the engine's algorithms; they are parameters of the model (\<open>engine\<close> below).
\<close>

datatype jsnum = Finite rat | PosInf | NegInf | NaN

text \<open>
  What \<^verbatim>\<open>response.json()\<close> can return, plus \<^verbatim>\<open>undefined\<close> for a property that is
  not there. \<open>JObj\<close> lists the own properties of the parsed object.
\<close>

datatype jsval =
    JUndefined
  | JNull
  | JBool bool
  | JNum jsnum
  | JStr jsstring
  | JArr "jsval list"
  | JObj "(jsstring \<times> jsval) list"

text \<open>
  Exceptions. \<open>Error m\<close> is \<^verbatim>\<open>new Error(m)\<close> thrown by the program; \<open>TypeError k\<close> is
  raised by the engine; \<open>Rejection m\<close> is an error object with message \<open>m\<close> that the
  environment rejects a promise with (\<^verbatim>\<open>fetch\<close>, \<^verbatim>\<open>response.json\<close>).
\<close>

datatype type_error = NullProperty | NotAFunction | NotPrimitive

datatype exn = Error jsstring | TypeError type_error | Rejection jsstring

record engine =
  numToString :: "jsnum \<Rightarrow> jsstring"
  stringToNumber :: "jsstring \<Rightarrow> jsnum"
  typeErrorMessage :: "type_error \<Rightarrow> jsstring"

definition message :: "engine \<Rightarrow> exn \<Rightarrow> jsstring" where
  "message eng e =
     (case e of Error m \<Rightarrow> m | TypeError k \<Rightarrow> typeErrorMessage eng k | Rejection m \<Rightarrow> m)"

subsection \<open>Truthiness, property access, conversions\<close>

fun truthy :: "jsval \<Rightarrow> bool" where
  "truthy JUndefined = False"
| "truthy JNull = False"
| "truthy (JBool b) = b"
| "truthy (JNum (Finite r)) = (r \<noteq> 0)"
| "truthy (JNum NaN) = False"
| "truthy (JNum PosInf) = True"
| "truthy (JNum NegInf) = True"
| "truthy (JStr s) = (s \<noteq> [])"
| "truthy (JArr xs) = True"
| "truthy (JObj kv) = True"

text \<open>
  \<^verbatim>\<open>v.k\<close> and \<^verbatim>\<open>v[k]\<close> for the property names the program uses (\<^verbatim>\<open>available\<close>,
  \<^verbatim>\<open>detail\<close>, \<^verbatim>\<open>car\<close>, \<^verbatim>\<open>source\<close>, \<^verbatim>\<open>location\<close>, \<^verbatim>\<open>city\<close>, \<^verbatim>\<open>regionName\<close>,
  \<^verbatim>\<open>region\<close>, \<^verbatim>\<open>countryCode\<close>, \<^verbatim>\<open>price_data\<close>, \<^verbatim>\<open>regional\<close>, \<^verbatim>\<open>national\<close>,
  \<^verbatim>\<open>prices\<close>, \<^verbatim>\<open>fuel_price\<close>, \<^verbatim>\<open>gas_price\<close> and the four fuel keys). None of them is defined on a
  prototype, so only an object's own properties answer; reading a property of
  \<^verbatim>\<open>null\<close> or \<^verbatim>\<open>undefined\<close> raises.
\<close>

fun getProp :: "jsval \<Rightarrow> jsstring \<Rightarrow> exn + jsval" where
  "getProp JUndefined k = Inl (TypeError NullProperty)"
| "getProp JNull k = Inl (TypeError NullProperty)"
| "getProp (JObj kv) k = Inr (case map_of kv k of None \<Rightarrow> JUndefined | Some v \<Rightarrow> v)"
| "getProp v k = Inr JUndefined"

text \<open>
  \<^verbatim>\<open>ToString\<close>, as a template literal applies it. An array joins its elements with a
  comma, \<^verbatim>\<open>null\<close> and \<^verbatim>\<open>undefined\<close> elements printing as nothing. A parsed object
  prints through \<^verbatim>\<open>Object.prototype.toString\<close>, unless an own property \<^verbatim>\<open>toString\<close>
  (never callable in parsed JSON) shadows it: then no primitive is found and the engine
  raises.
\<close>

fun toStr :: "engine \<Rightarrow> jsval \<Rightarrow> exn + jsstring"
  and joinElems :: "engine \<Rightarrow> jsval list \<Rightarrow> exn + jsstring" where
  "toStr eng JUndefined = Inr (js ''undefined'')"
| "toStr eng JNull = Inr (js ''null'')"
| "toStr eng (JBool b) = Inr (if b then js ''true'' else js ''false'')"
| "toStr eng (JNum n) = Inr (numToString eng n)"
| "toStr eng (JStr s) = Inr s"
| "toStr eng (JArr xs) = joinElems eng xs"
| "toStr eng (JObj kv) =
     (if js ''toString'' \<in> fst ` set kv then Inl (TypeError NotPrimitive)
      else Inr (js ''[object Object]''))"
| "joinElems eng [] = Inr []"
| "joinElems eng (x # xs) =
     (case (if x = JUndefined \<or> x = JNull then Inr [] else toStr eng x) of
        Inl e \<Rightarrow> Inl e
      | Inr s \<Rightarrow>
          if xs = [] then Inr s
          else (case joinElems eng xs of Inl e \<Rightarrow> Inl e | Inr t \<Rightarrow> Inr (s @ js '','' @ t)))"

text \<open>
  \<^verbatim>\<open>ToNumber\<close> after \<^verbatim>\<open>ToPrimitive\<close> with hint number, and the test \<^verbatim>\<open>v > 0\<close>.
  For an array or object \<^verbatim>\<open>valueOf\<close> gives no primitive, so the string form is read
  as a number.
\<close>

fun toNumber :: "engine \<Rightarrow> jsval \<Rightarrow> exn + jsnum" where
  "toNumber eng JUndefined = Inr NaN"
| "toNumber eng JNull = Inr (Finite 0)"
| "toNumber eng (JBool b) = Inr (Finite (if b then 1 else 0))"
| "toNumber eng (JNum n) = Inr n"
| "toNumber eng (JStr s) = Inr (stringToNumber eng s)"
| "toNumber eng v =
     (case toStr eng v of Inl e \<Rightarrow> Inl e | Inr s \<Rightarrow> Inr (stringToNumber eng s))"

fun positive :: "jsnum \<Rightarrow> bool" where
  "positive (Finite r) = (0 < r)"
| "positive PosInf = True"
| "positive NegInf = False"
| "positive NaN = False"

definition greaterThanZero :: "engine \<Rightarrow> jsval \<Rightarrow> exn + bool" where
  "greaterThanZero eng v =
     (case toNumber eng v of Inl e \<Rightarrow> Inl e | Inr n \<Rightarrow> Inr (positive n))"

subsection \<open>String methods\<close>

text \<open>
  \<^verbatim>\<open>String.prototype.trim\<close> removes the code units of \<^verbatim>\<open>WhiteSpace\<close> and
  \<^verbatim>\<open>LineTerminator\<close> from both ends.
\<close>

definition isWhiteSpace :: "16 word \<Rightarrow> bool" where
  "isWhiteSpace c =
     ((0x0009 \<le> c \<and> c \<le> 0x000D) \<or> c = 0x0020 \<or> c = 0x00A0 \<or> c = 0x1680 \<or>
      (0x2000 \<le> c \<and> c \<le> 0x200A) \<or> c = 0x2028 \<or> c = 0x2029 \<or> c = 0x202F \<or>
      c = 0x205F \<or> c = 0x3000 \<or> c = 0xFEFF)"

definition trim :: "jsstring \<Rightarrow> jsstring" where
  "trim s = rev (dropWhile isWhiteSpace (rev (dropWhile isWhiteSpace s)))"

fun startsWith :: "jsstring \<Rightarrow> jsstring \<Rightarrow> bool" where
  "startsWith s [] = True"
| "startsWith [] (c # n) = False"
| "startsWith (d # s) (c # n) = (d = c \<and> startsWith s n)"

text \<open>\<^verbatim>\<open>s.includes(n)\<close> on a string: \<open>n\<close> occurs in \<open>s\<close>.\<close>

fun includesStr :: "jsstring \<Rightarrow> jsstring \<Rightarrow> bool" where
  "includesStr [] n = (n = [])"
| "includesStr (c # s) n = (startsWith (c # s) n \<or> includesStr s n)"

text \<open>
  \<^verbatim>\<open>v.includes(n)\<close> on a value that is not known to be a string. A string searches for
  a substring, an array for an element equal to the string \<open>n\<close>; anything else has no
  callable \<^verbatim>\<open>includes\<close>.
\<close>

fun callIncludes :: "jsval \<Rightarrow> jsstring \<Rightarrow> exn + bool" where
  "callIncludes JUndefined n = Inl (TypeError NullProperty)"
| "callIncludes JNull n = Inl (TypeError NullProperty)"
| "callIncludes (JStr s) n = Inr (includesStr s n)"
| "callIncludes (JArr xs) n = Inr (JStr n \<in> set xs)"
| "callIncludes v n = Inl (TypeError NotAFunction)"

text \<open>\<^verbatim>\<open>s.replace(/\n/g, '<br>')\<close>.\<close>

definition replaceNewlines :: "jsstring \<Rightarrow> jsstring" where
  "replaceNewlines s = concat (map (\<lambda>c. if c = 0x000A then js ''<br>'' else [c]) s)"

text \<open>\<^verbatim>\<open>m.replace(/^Error: /, '')\<close>.\<close>

definition stripErrorPrefix :: "jsstring \<Rightarrow> jsstring" where
  "stripErrorPrefix m = (if startsWith m (js ''Error: '') then drop 7 m else m)"

text \<open>A status code in a template literal: an integer prints in decimal.\<close>

fun decimal :: "nat \<Rightarrow> jsstring" where
  "decimal n =
     (if n < 10 then [of_nat (48 + n)]
      else decimal (n div 10) @ [of_nat (48 + n mod 10)])"

declare decimal.simps [simp del]

section \<open>The page and the network\<close>

text \<open>
  The properties of an element that the program reads or writes. \<open>elemValue\<close> is the
  \<^verbatim>\<open>value\<close> of an input, \<open>opacity\<close> and \<open>cursor\<close> are \<^verbatim>\<open>style.opacity\<close> and
  \<^verbatim>\<open>style.cursor\<close>.
\<close>

record element =
  disabled :: bool
  textContent :: jsstring
  title :: jsstring
  placeholder :: jsstring
  elemValue :: jsstring
  innerHTML :: jsstring
  opacity :: jsstring
  cursor :: jsstring
  classList :: "jsstring list"

text \<open>
  What the program does to the outside, in order: \<^verbatim>\<open>alert\<close>, \<^verbatim>\<open>console.error\<close>, and
  \<^verbatim>\<open>fetch\<close> with the URL and, for a POST, the object that is sent as JSON.
\<close>

datatype effect =
    Alert jsstring
  | ConsoleError jsstring exn
  | Fetch jsstring "jsval option"

text \<open>
  The seven elements the program looks up by id (\<open>None\<close> when
  \<^verbatim>\<open>document.getElementById\<close> returns \<^verbatim>\<open>null\<close>) and the trace of effects.
\<close>

record page =
  searchBtn :: "element option"
  searchInput :: "element option"
  resultsSection :: "element option"
  resultsContent :: "element option"
  dashboardSection :: "element option"
  userLocation :: "element option"
  gasPrices :: "element option"
  effects :: "effect list"

text \<open>
  A response has a status and a body; \<^verbatim>\<open>response.json()\<close> either rejects or gives
  the parsed value. \<^verbatim>\<open>response.ok\<close> is a status from 200 to 299. A \<^verbatim>\<open>fetch\<close> either
  rejects or gives a response.
\<close>

record response =
  status :: nat
  json :: "exn + jsval"

definition ok :: "response \<Rightarrow> bool" where
  "ok r = (200 \<le> status r \<and> status r \<le> 299)"

datatype fetch_outcome = FetchFailed exn | Responded response

text \<open>
  A function that can throw after it has changed the page returns the page together
  with the exception.
\<close>

datatype outcome = Done page | Threw exn page

fun pageOf :: "outcome \<Rightarrow> page" where
  "pageOf (Done p) = p"
| "pageOf (Threw e p) = p"

definition emit :: "effect \<Rightarrow> page \<Rightarrow> page" where
  "emit x p = p\<lparr>effects := effects p @ [x]\<rparr>"

section \<open>checkAgentStatus\<close>

definition disableButton :: "element \<Rightarrow> element" where
  "disableButton b =
     b\<lparr>disabled := True,
       textContent := js ''Agent Unavailable'',
       title := js ''Agent API Key is missing'',
       opacity := js ''0.6'',
       cursor := js ''not-allowed''\<rparr>"

definition disableInput :: "element \<Rightarrow> element" where
  "disableInput i =
     i\<lparr>disabled := True,
       placeholder := js ''Agent is offline (API Key missing)'',
       cursor := js ''not-allowed''\<rparr>"

text \<open>The body of the \<^verbatim>\<open>try\<close> block, after the request has been issued.\<close>

definition checkAgentStatus_try :: "fetch_outcome \<Rightarrow> page \<Rightarrow> exn + page" where
  "checkAgentStatus_try net p =
     (case net of
        FetchFailed e \<Rightarrow> Inl e
      | Responded r \<Rightarrow>
          (case json r of
             Inl e \<Rightarrow> Inl e
           | Inr data \<Rightarrow>
               (case getProp data (js ''available'') of
                  Inl e \<Rightarrow> Inl e
                | Inr a \<Rightarrow>
                    if \<not> truthy a then
                      Inr (p\<lparr>searchBtn := map_option disableButton (searchBtn p),
                             searchInput := map_option disableInput (searchInput p)\<rparr>)
                    else Inr p)))"

definition checkAgentStatus :: "fetch_outcome \<Rightarrow> page \<Rightarrow> page" where
  "checkAgentStatus net p =
     (let p0 = emit (Fetch (js ''/api/v1/agent/status'') None) p in
      case checkAgentStatus_try net p0 of
        Inr p' \<Rightarrow> p'
      | Inl e \<Rightarrow> emit (ConsoleError (js ''Failed to check agent status:'') e) p0)"

section \<open>handleSearch and displayResults\<close>

definition nl :: jsstring where
  "nl = [0x000A]"

definition sp :: "nat \<Rightarrow> jsstring" where
  "sp n = replicate n 0x0020"

text \<open>The warning sign U+26A0 with its variation selector U+FE0F.\<close>

definition warningSign :: jsstring where
  "warningSign = [0x26A0, 0xFE0F]"

definition quotaExceededMessage :: jsstring where
  "quotaExceededMessage =
     warningSign @ js '' Agent usage limit exceeded. Please try again later.''"

definition serviceUnavailableMessage :: jsstring where
  "serviceUnavailableMessage =
     warningSign @ js '' Agent service is temporarily unavailable. Please try again.''"

text \<open>
  Lines 82 to 85: \<^verbatim>\<open>errorData.detail && (errorData.detail.includes("RESOURCE_EXHAUSTED")
  || errorData.detail.includes("429"))\<close>, as a condition.
\<close>

definition quotaExhausted :: "jsval \<Rightarrow> exn + bool" where
  "quotaExhausted errorData =
     (case getProp errorData (js ''detail'') of
        Inl e \<Rightarrow> Inl e
      | Inr d \<Rightarrow>
          if \<not> truthy d then Inr False
          else (case callIncludes d (js ''RESOURCE_EXHAUSTED'') of
                  Inl e \<Rightarrow> Inl e
                | Inr True \<Rightarrow> Inr True
                | Inr False \<Rightarrow> callIncludes d (js ''429'')))"

text \<open>\<^verbatim>\<open>resultText.replace(/\n/g, '<br>')\<close> on a value that need not be a string.\<close>

fun callReplace :: "jsval \<Rightarrow> exn + jsstring" where
  "callReplace JUndefined = Inl (TypeError NullProperty)"
| "callReplace JNull = Inl (TypeError NullProperty)"
| "callReplace (JStr s) = Inr (replaceNewlines s)"
| "callReplace v = Inl (TypeError NotAFunction)"

definition resultsHtml :: "jsstring \<Rightarrow> jsstring \<Rightarrow> jsstring" where
  \<open>resultsHtml query formattedText =
     nl @ sp 8 @ js ''<h3>Analysis for "'' @ query @ js ''"</h3>'' @
     nl @ sp 8 @ js ''<div class="agent-response">'' @
     nl @ sp 12 @ js ''<p>'' @ formattedText @ js ''</p>'' @
     nl @ sp 8 @ js ''</div>'' @
     nl @ sp 4\<close>

definition displayResults :: "engine \<Rightarrow> jsval \<Rightarrow> jsval \<Rightarrow> page \<Rightarrow> exn + page" where
  "displayResults eng resultText query p =
     (case resultsContent p of
        None \<Rightarrow> Inr p
      | Some rc \<Rightarrow>
          (case callReplace resultText of
             Inl e \<Rightarrow> Inl e
           | Inr formattedText \<Rightarrow>
               (case toStr eng query of
                  Inl e \<Rightarrow> Inl e
                | Inr q \<Rightarrow>
                    Inr (p\<lparr>resultsContent :=
                             Some (rc\<lparr>innerHTML := resultsHtml q formattedText\<rparr>)\<rparr>))))"

definition setResultsHtml :: "jsstring \<Rightarrow> page \<Rightarrow> page" where
  "setResultsHtml h p =
     p\<lparr>resultsContent := map_option (\<lambda>rc. rc\<lparr>innerHTML := h\<rparr>) (resultsContent p)\<rparr>"

text \<open>
  The \<^verbatim>\<open>try\<close> block of \<^verbatim>\<open>handleSearch\<close> (lines 68 to 99) once the request is out.
  Nothing in it writes to the page before it can throw.
\<close>

definition handleSearch_try :: "engine \<Rightarrow> fetch_outcome \<Rightarrow> page \<Rightarrow> exn + page" where
  \<open>handleSearch_try eng net p =
     (case net of
        FetchFailed e \<Rightarrow> Inl e
      | Responded r \<Rightarrow>
          if \<not> ok r then
            (let errorData = (case json r of Inl e \<Rightarrow> JObj [] | Inr v \<Rightarrow> v);
                 msg = js ''API Error: '' @ decimal (status r)
             in if status r = 502 \<or> status r = 429 then
                  (case quotaExhausted errorData of
                     Inl e \<Rightarrow> Inl e
                   | Inr True \<Rightarrow> Inl (Error quotaExceededMessage)
                   | Inr False \<Rightarrow> Inl (Error serviceUnavailableMessage))
                else Inl (Error msg))
          else
            (case json r of
               Inl e \<Rightarrow> Inl e
             | Inr data \<Rightarrow>
                 if \<not> truthy data then
                   Inr (setResultsHtml (js ''<p>No data available for this car.</p>'') p)
                 else
                   (case getProp data (js ''car'') of
                      Inl e \<Rightarrow> Inl e
                    | Inr car \<Rightarrow>
                        if truthy car then
                          (case getProp data (js ''source'') of
                             Inl e \<Rightarrow> Inl e
                           | Inr source \<Rightarrow> displayResults eng car source p)
                        else
                          Inr (setResultsHtml
                                 (js ''<p>No data available for this car.</p>'') p))))\<close>

definition handleSearch :: "engine \<Rightarrow> fetch_outcome \<Rightarrow> page \<Rightarrow> outcome" where
  \<open>handleSearch eng net p =
     (case searchInput p of
        None \<Rightarrow> Threw (TypeError NullProperty) p
      | Some inp \<Rightarrow>
          (let query = trim (elemValue inp) in
           if query = [] then Done (emit (Alert (js ''Please enter a car to analyze.'')) p)
           else
             (case resultsSection p of
                None \<Rightarrow> Threw (TypeError NullProperty) p
              | Some sec \<Rightarrow>
                  (let p1 = p\<lparr>resultsSection :=
                               Some (sec\<lparr>classList :=
                                 filter (\<lambda>c. c \<noteq> js ''results-hidden'') (classList sec)\<rparr>)\<rparr>
                   in case resultsContent p1 of
                        None \<Rightarrow> Threw (TypeError NullProperty) p1
                      | Some rc \<Rightarrow>
                          (let p2 = setResultsHtml (js ''<div class="loading-spinner"></div>'') p1;
                               p3 = emit (Fetch (js ''/api/v1/agent/chat'')
                                            (Some (JObj [(js ''query'', JStr query)]))) p2
                           in case handleSearch_try eng net p3 of
                                Inr p' \<Rightarrow> Done p'
                              | Inl e \<Rightarrow>
                                  (let p4 = emit (ConsoleError (js ''Error fetching data:'') e) p3;
                                       msg = stripErrorPrefix (message eng e)
                                   in Done (setResultsHtml
                                              (js ''<p class="error">'' @ msg @ js ''</p>'')
                                              p4)))))))\<close>

section \<open>fetchFuelPrice and updateDashboardUI\<close>

definition fuelMapping :: "(jsstring \<times> jsstring) list" where
  "fuelMapping =
     [(js ''gasoline'', js ''Benzina''),
      (js ''diesel'', js ''Gasolio''),
      (js ''gpl'', js ''GPL''),
      (js ''methane'', js ''Metano'')]"

text \<open>The euro sign U+20AC.\<close>

definition euro :: jsstring where
  "euro = [0x20AC]"

text \<open>
  The template of one fuel row. It is written twice in the source, indented by 24
  columns in \<^verbatim>\<open>generatePriceList\<close> and by 20 in the single-list fallback.
\<close>

definition fuelItem :: "nat \<Rightarrow> jsstring \<Rightarrow> jsstring \<Rightarrow> jsstring" where
  \<open>fuelItem ind label price =
     nl @ sp ind @ js ''<div class="fuel-item">'' @
     nl @ sp (ind + 4) @ js ''<span class="fuel-type">'' @ label @ js ''</span>'' @
     nl @ sp (ind + 4) @ js ''<span class="fuel-price">'' @ euro @ price @ js ''</span>'' @
     nl @ sp ind @ js ''</div>'' @
     nl @ sp (ind - 4)\<close>

text \<open>
  \<^verbatim>\<open>prices[key] && prices[key] > 0\<close>, and the printed price when the test passes.
\<close>

definition priceShown :: "engine \<Rightarrow> jsval \<Rightarrow> jsstring \<Rightarrow> exn + jsstring option" where
  "priceShown eng prices key =
     (case getProp prices key of
        Inl e \<Rightarrow> Inl e
      | Inr v \<Rightarrow>
          if \<not> truthy v then Inr None
          else (case greaterThanZero eng v of
                  Inl e \<Rightarrow> Inl e
                | Inr False \<Rightarrow> Inr None
                | Inr True \<Rightarrow>
                    (case toStr eng v of Inl e \<Rightarrow> Inl e | Inr s \<Rightarrow> Inr (Some s))))"

text \<open>
  The loop \<^verbatim>\<open>for (const [key, label] of Object.entries(fuelMapping))\<close> with its two
  variables, the HTML so far and \<^verbatim>\<open>hasPrices\<close>.
\<close>

fun priceLoop ::
  "engine \<Rightarrow> nat \<Rightarrow> jsval \<Rightarrow> (jsstring \<times> jsstring) list \<Rightarrow> jsstring \<times> bool
     \<Rightarrow> exn + jsstring \<times> bool" where
  "priceLoop eng ind prices [] acc = Inr acc"
| "priceLoop eng ind prices ((key, label) # rest) (html, hasPrices) =
     (case priceShown eng prices key of
        Inl e \<Rightarrow> Inl e
      | Inr None \<Rightarrow> priceLoop eng ind prices rest (html, hasPrices)
      | Inr (Some s) \<Rightarrow> priceLoop eng ind prices rest (html @ fuelItem ind label s, True))"

definition generatePriceList :: "engine \<Rightarrow> jsval \<Rightarrow> jsstring \<Rightarrow> exn + jsstring" where
  \<open>generatePriceList eng prices columnTitle =
     (case priceLoop eng 24 prices fuelMapping
             (js ''<div class="price-column"><h4>'' @ columnTitle @ js ''</h4>'', False) of
        Inl e \<Rightarrow> Inl e
      | Inr (html, hasPrices) \<Rightarrow> Inr (if hasPrices then html @ js ''</div>'' else []))\<close>

definition orElse :: "jsval \<Rightarrow> jsval \<Rightarrow> jsval" where
  "orElse a b = (if truthy a then a else b)"

text \<open>Lines 157 to 164: the text that is assigned to the location element.\<close>

definition locationText :: "engine \<Rightarrow> jsval \<Rightarrow> exn + jsstring" where
  "locationText eng data =
     (case getProp data (js ''location'') of
        Inl e \<Rightarrow> Inl e
      | Inr loc \<Rightarrow>
          if \<not> truthy loc then Inr (js ''Unknown Location'')
          else
            (case getProp loc (js ''city'') of
               Inl e \<Rightarrow> Inl e
             | Inr city \<Rightarrow>
                 if \<not> truthy city then Inr (js ''Unknown Location'')
                 else
                   (case getProp loc (js ''regionName'') of
                      Inl e \<Rightarrow> Inl e
                    | Inr regionName \<Rightarrow>
                   (case getProp loc (js ''region'') of
                      Inl e \<Rightarrow> Inl e
                    | Inr region0 \<Rightarrow>
                   (case getProp loc (js ''countryCode'') of
                      Inl e \<Rightarrow> Inl e
                    | Inr countryCode \<Rightarrow>
                   (let region = orElse regionName (orElse region0 (JStr []));
                        country = orElse countryCode (JStr (js ''IT''))
                    in case toStr eng city of
                         Inl e \<Rightarrow> Inl e
                       | Inr c \<Rightarrow>
                      (case toStr eng region of
                         Inl e \<Rightarrow> Inl e
                       | Inr rg \<Rightarrow>
                      (case toStr eng country of
                         Inl e \<Rightarrow> Inl e
                       | Inr co \<Rightarrow>
                           Inr (c @ js '', '' @ rg @ js '' ('' @ co @ js '')'')))))))))"

text \<open>One column: \<^verbatim>\<open>if (x) contentHtml += generatePriceList(x.prices, title)\<close>.\<close>

definition regionalColumn :: "engine \<Rightarrow> jsval \<Rightarrow> exn + jsstring" where
  "regionalColumn eng pd =
     (case getProp pd (js ''regional'') of
        Inl e \<Rightarrow> Inl e
      | Inr regional \<Rightarrow>
          if \<not> truthy regional then Inr []
          else
            (case getProp regional (js ''prices'') of
               Inl e \<Rightarrow> Inl e
             | Inr prices \<Rightarrow>
            (case getProp regional (js ''region'') of
               Inl e \<Rightarrow> Inl e
             | Inr region \<Rightarrow>
            (case toStr eng region of
               Inl e \<Rightarrow> Inl e
             | Inr rg \<Rightarrow> generatePriceList eng prices (js ''Media '' @ rg)))))"

definition nationalColumn :: "engine \<Rightarrow> jsval \<Rightarrow> exn + jsstring" where
  "nationalColumn eng pd =
     (case getProp pd (js ''national'') of
        Inl e \<Rightarrow> Inl e
      | Inr national \<Rightarrow>
          if \<not> truthy national then Inr []
          else
            (case getProp national (js ''prices'') of
               Inl e \<Rightarrow> Inl e
             | Inr prices \<Rightarrow> generatePriceList eng prices (js ''Media Italia'')))"

text \<open>Lines 167 to 244: the HTML that is assigned to the price display.\<close>

definition pricesHtml :: "engine \<Rightarrow> jsval \<Rightarrow> exn + jsstring" where
  \<open>pricesHtml eng data =
     (case getProp data (js ''price_data'') of
        Inl e \<Rightarrow> Inl e
      | Inr pd \<Rightarrow>
          if truthy pd then
            (case regionalColumn eng pd of
               Inl e \<Rightarrow> Inl e
             | Inr reg \<Rightarrow>
            (case nationalColumn eng pd of
               Inl e \<Rightarrow> Inl e
             | Inr natl \<Rightarrow>
                 (let contentHtml = reg @ natl
                  in if contentHtml = [] then Inr (js ''<p>Prezzi non disponibili.</p>'')
                     else Inr (js ''<div class="prices-container" style="display: flex; gap: 2rem;">''
                               @ contentHtml @ js ''</div>''))))
          else
            (case getProp data (js ''fuel_price'') of
               Inl e \<Rightarrow> Inl e
             | Inr prices \<Rightarrow>
                 if truthy prices then
                   (case priceLoop eng 20 prices fuelMapping
                           (js ''<div class="price-label">Prezzo Medio</div>'', False) of
                      Inl e \<Rightarrow> Inl e
                    | Inr (html, hasPrices) \<Rightarrow> Inr html)
                 else Inr (js ''<p>Prices unavailable</p>'')))\<close>

definition updateDashboardUI :: "engine \<Rightarrow> jsval \<Rightarrow> page \<Rightarrow> outcome" where
  "updateDashboardUI eng data p =
     (case locationText eng data of
        Inl e \<Rightarrow> Threw e p
      | Inr t \<Rightarrow>
          (case userLocation p of
             None \<Rightarrow> Threw (TypeError NullProperty) p
           | Some ul \<Rightarrow>
               (let p1 = p\<lparr>userLocation := Some (ul\<lparr>textContent := t\<rparr>)\<rparr>
                in case pricesHtml eng data of
                     Inl e \<Rightarrow> Threw e p1
                   | Inr h \<Rightarrow>
                       (case gasPrices p1 of
                          None \<Rightarrow> Threw (TypeError NullProperty) p1
                        | Some g \<Rightarrow> Done (p1\<lparr>gasPrices := Some (g\<lparr>innerHTML := h\<rparr>)\<rparr>)))))"

definition setLocationText :: "jsstring \<Rightarrow> page \<Rightarrow> page" where
  "setLocationText t p =
     p\<lparr>userLocation := map_option (\<lambda>ul. ul\<lparr>textContent := t\<rparr>) (userLocation p)\<rparr>"

definition setPricesHtml :: "jsstring \<Rightarrow> page \<Rightarrow> page" where
  "setPricesHtml h p =
     p\<lparr>gasPrices := map_option (\<lambda>g. g\<lparr>innerHTML := h\<rparr>) (gasPrices p)\<rparr>"

text \<open>
  The \<^verbatim>\<open>try\<close> block of \<^verbatim>\<open>fetchFuelPrice\<close> (lines 127 to 139). With status 403 the
  location text is written before the detail is read, so a throw there keeps it.
\<close>

definition fetchFuelPrice_try :: "engine \<Rightarrow> fetch_outcome \<Rightarrow> page \<Rightarrow> outcome" where
  \<open>fetchFuelPrice_try eng net p =
     (case net of
        FetchFailed e \<Rightarrow> Threw e p
      | Responded r \<Rightarrow>
          if status r = 403 then
            (case json r of
               Inl e \<Rightarrow> Threw e p
             | Inr errorData \<Rightarrow>
                 (let p1 = setLocationText (js ''Location Unavailable'') p
                  in case getProp errorData (js ''detail'') of
                       Inl e \<Rightarrow> Threw e p1
                     | Inr detail \<Rightarrow>
                         (case toStr eng detail of
                            Inl e \<Rightarrow> Threw e p1
                          | Inr d \<Rightarrow>
                              Done (setPricesHtml
                                      (js ''<p class="error-message">'' @ d @ js ''</p>'') p1))))
          else if \<not> ok r then Threw (Error (js ''Failed to fetch fuel prices'')) p
          else
            (case json r of
               Inl e \<Rightarrow> Threw e p
             | Inr data \<Rightarrow> updateDashboardUI eng data p))\<close>

definition fetchFuelPrice :: "engine \<Rightarrow> fetch_outcome \<Rightarrow> page \<Rightarrow> page" where
  \<open>fetchFuelPrice eng net p =
     (case (dashboardSection p, userLocation p, gasPrices p) of
        (Some ds, Some ul, Some g) \<Rightarrow>
          (let p1 = p\<lparr>dashboardSection :=
                       Some (ds\<lparr>classList :=
                         filter (\<lambda>c. c \<noteq> js ''dashboard-hidden'') (classList ds)\<rparr>)\<rparr>;
               p2 = setLocationText (js ''Info loading...'') p1;
               p3 = setPricesHtml (js ''<div class="mini-spinner"></div>'') p2;
               p4 = emit (Fetch (js ''/api/v1/fuel-price'') None) p3
           in case fetchFuelPrice_try eng net p4 of
                Done p' \<Rightarrow> p'
              | Threw e p' \<Rightarrow>
                  setPricesHtml (js ''<p>Could not load prices</p>'')
                    (setLocationText (js ''Location Unavailable'')
                       (emit (ConsoleError (js ''Error fetching fuel prices:'') e) p')))
      | _ \<Rightarrow> p)\<close>

section \<open>The earlier version of the controller\<close>

text \<open>
  The second source file is an earlier version of the same controller, with a mock search
  and a single price list. Its click handler validates the query as \<^verbatim>\<open>handleSearch\<close>
  does, then renders fixed mock data for the query after a delay (the delay itself is
  not modelled). Nothing in its \<^verbatim>\<open>try\<close> block can throw.
\<close>

definition mockResultsHtml :: "jsstring \<Rightarrow> jsstring" where
  \<open>mockResultsHtml car =
     nl @ sp 12 @ js ''<h3>Results for "'' @ car @ js ''"</h3>'' @
     nl @ sp 12 @ js ''<p><strong>Estimated Cost:</strong> $12,500 - $15,000</p>'' @
     nl @ sp 12 @ js ''<p><strong>Maintenance Score:</strong> High</p>'' @
     nl @ sp 12 @ js ''<p><strong>Reliability:</strong> Average</p>'' @
     nl @ sp 8\<close>

definition searchClick :: "page \<Rightarrow> outcome" where
  \<open>searchClick p =
     (case searchInput p of
        None \<Rightarrow> Threw (TypeError NullProperty) p
      | Some inp \<Rightarrow>
          (let query = trim (elemValue inp) in
           if query = [] then Done (emit (Alert (js ''Please enter a car to analyze.'')) p)
           else
             (case resultsSection p of
                None \<Rightarrow> Threw (TypeError NullProperty) p
              | Some sec \<Rightarrow>
                  (let p1 = p\<lparr>resultsSection :=
                               Some (sec\<lparr>classList :=
                                 filter (\<lambda>c. c \<noteq> js ''results-hidden'') (classList sec)\<rparr>)\<rparr>
                   in case resultsContent p1 of
                        None \<Rightarrow> Threw (TypeError NullProperty) p1
                      | Some rc \<Rightarrow>
                          (let p2 = setResultsHtml (js ''<div class="loading-spinner"></div>'') p1
                           in Done (setResultsHtml (mockResultsHtml query) p2))))))\<close>

text \<open>Lines 75 to 101 of the earlier \<^verbatim>\<open>fetchGasPrice\<close>: the HTML of the single list.\<close>

definition gasPriceHtml :: "engine \<Rightarrow> jsval \<Rightarrow> exn + jsstring" where
  \<open>gasPriceHtml eng data =
     (case getProp data (js ''gas_price'') of
        Inl e \<Rightarrow> Inl e
      | Inr prices \<Rightarrow>
          if truthy prices then
            (case priceLoop eng 28 prices fuelMapping
                    (js ''<div class="price-label">Prezzo Medio</div>'', False) of
               Inl e \<Rightarrow> Inl e
             | Inr (html, hasPrices) \<Rightarrow> Inr html)
          else Inr (js ''<p>Prices unavailable</p>''))\<close>

text \<open>
  The \<^verbatim>\<open>try\<close> block of the earlier \<^verbatim>\<open>fetchGasPrice\<close> (lines 47 to 101). Here no
  element is checked against \<^verbatim>\<open>null\<close>, so each write can raise.
\<close>

definition fetchGasPrice_try :: "engine \<Rightarrow> fetch_outcome \<Rightarrow> page \<Rightarrow> outcome" where
  \<open>fetchGasPrice_try eng net p =
     (case dashboardSection p of
        None \<Rightarrow> Threw (TypeError NullProperty) p
      | Some ds \<Rightarrow>
          (let p1 = p\<lparr>dashboardSection :=
                       Some (ds\<lparr>classList :=
                         filter (\<lambda>c. c \<noteq> js ''dashboard-hidden'') (classList ds)\<rparr>)\<rparr>;
               p2 = emit (Fetch (js ''/api/v1/gas-price'') None) p1
           in case net of
                FetchFailed e \<Rightarrow> Threw e p2
              | Responded r \<Rightarrow>
                  if status r = 403 then
                    (case json r of
                       Inl e \<Rightarrow> Threw e p2
                     | Inr errorData \<Rightarrow>
                         (case userLocation p2 of
                            None \<Rightarrow> Threw (TypeError NullProperty) p2
                          | Some ul \<Rightarrow>
                              (let p3 = setLocationText (js ''Location Unavailable'') p2
                               in case getProp errorData (js ''detail'') of
                                    Inl e \<Rightarrow> Threw e p3
                                  | Inr detail \<Rightarrow>
                                      (case toStr eng detail of
                                         Inl e \<Rightarrow> Threw e p3
                                       | Inr d \<Rightarrow>
                                           (case gasPrices p3 of
                                              None \<Rightarrow> Threw (TypeError NullProperty) p3
                                            | Some g \<Rightarrow>
                                                Done (setPricesHtml
                                                        (js ''<p class="error-message">'' @ d @
                                                         js ''</p>'') p3))))))
                  else if \<not> ok r then Threw (Error (js ''Failed to fetch gas prices'')) p2
                  else
                    (case json r of
                       Inl e \<Rightarrow> Threw e p2
                     | Inr data \<Rightarrow>
                         (case locationText eng data of
                            Inl e \<Rightarrow> Threw e p2
                          | Inr t \<Rightarrow>
                              (case userLocation p2 of
                                 None \<Rightarrow> Threw (TypeError NullProperty) p2
                               | Some ul \<Rightarrow>
                                   (let p3 = setLocationText t p2
                                    in case gasPriceHtml eng data of
                                         Inl e \<Rightarrow> Threw e p3
                                       | Inr h \<Rightarrow>
                                           (case gasPrices p3 of
                                              None \<Rightarrow> Threw (TypeError NullProperty) p3
                                            | Some g \<Rightarrow> Done (setPricesHtml h p3))))))))\<close>

definition fetchGasPrice :: "engine \<Rightarrow> fetch_outcome \<Rightarrow> page \<Rightarrow> outcome" where
  \<open>fetchGasPrice eng net p =
     (case fetchGasPrice_try eng net p of
        Done p' \<Rightarrow> Done p'
      | Threw e p' \<Rightarrow>
          (let p1 = emit (ConsoleError (js ''Error fetching gas prices:'') e) p'
           in case userLocation p1 of
                None \<Rightarrow> Threw (TypeError NullProperty) p1
              | Some ul \<Rightarrow>
                  (let p2 = setLocationText (js ''Location Unavailable'') p1
                   in case gasPrices p2 of
                        None \<Rightarrow> Threw (TypeError NullProperty) p2
                      | Some g \<Rightarrow> Done (setPricesHtml (js ''<p>Could not load prices</p>'') p2))))\<close>

section \<open>Notions of the specification and concrete inputs\<close>

text \<open>A page holding all seven elements, with a query typed in, and an engine.\<close>

definition blank :: element where
  "blank = \<lparr>disabled = False, textContent = [], title = [], placeholder = [],
            elemValue = [], innerHTML = [], opacity = [], cursor = [], classList = []\<rparr>"

definition examplePage :: page where
  "examplePage =
     \<lparr>searchBtn = Some (blank\<lparr>textContent := js ''Analyze''\<rparr>),
      searchInput = Some (blank\<lparr>elemValue := js ''Fiat Panda''\<rparr>),
      resultsSection = Some (blank\<lparr>classList := [js ''results-hidden'']\<rparr>),
      resultsContent = Some blank,
      dashboardSection = Some (blank\<lparr>classList := [js ''dashboard-hidden'']\<rparr>),
      userLocation = Some blank,
      gasPrices = Some blank,
      effects = []\<rparr>"

text \<open>The double nearest to 1.8, which every engine prints as \<^verbatim>\<open>1.8\<close>.\<close>

definition onePointEight :: jsnum where
  "onePointEight = Finite (8106479329266893 / 4503599627370496)"

definition exampleEngine :: engine where
  "exampleEngine =
     \<lparr>numToString = (\<lambda>n. if n = onePointEight then js ''1.8'' else js ''0''),
      stringToNumber = (\<lambda>s. NaN),
      typeErrorMessage = (\<lambda>k. js ''not a function'')\<rparr>"

text \<open>
  The first of the given fields that is present, else the default. A field is present when
  it holds a non-empty string: that is what \<^verbatim>\<open>||\<close> lets through.
\<close>

fun firstPresent :: "jsstring option list \<Rightarrow> jsstring \<Rightarrow> jsstring" where
  "firstPresent [] d = d"
| "firstPresent (None # xs) d = firstPresent xs d"
| "firstPresent (Some s # xs) d = (if s = [] then firstPresent xs d else s)"

text \<open>
  The rows the specification asks for: of the given fuel entries, in their order, the
  label and the price of each key whose price is present and strictly greater than zero.
\<close>

fun shownAmong ::
  "(jsstring \<times> jsstring) list \<Rightarrow> (jsstring \<times> jsval) list \<Rightarrow> (jsstring \<times> jsnum) list" where
  "shownAmong [] prices = []"
| "shownAmong ((key, label) # rest) prices =
     (case map_of prices key of
        Some (JNum n) \<Rightarrow> if positive n then (label, n) # shownAmong rest prices
                         else shownAmong rest prices
      | _ \<Rightarrow> shownAmong rest prices)"

definition shownPrices :: "(jsstring \<times> jsval) list \<Rightarrow> (jsstring \<times> jsnum) list" where
  "shownPrices prices = shownAmong fuelMapping prices"

text \<open>
  A prices object as the interface gives it: under each of the given keys there is
  nothing, \<^verbatim>\<open>null\<close> or a number.
\<close>

fun numericAmong :: "(jsstring \<times> jsstring) list \<Rightarrow> (jsstring \<times> jsval) list \<Rightarrow> bool" where
  "numericAmong [] prices = True"
| "numericAmong ((key, label) # rest) prices =
     ((case map_of prices key of
         None \<Rightarrow> True
       | Some JNull \<Rightarrow> True
       | Some (JNum n) \<Rightarrow> True
       | Some v \<Rightarrow> False) \<and> numericAmong rest prices)"

definition numericPrices :: "(jsstring \<times> jsval) list \<Rightarrow> bool" where
  "numericPrices prices = numericAmong fuelMapping prices"

text \<open>The HTML of a list of rows, and of a titled column (nothing when it has no row).\<close>

fun fuelRows :: "engine \<Rightarrow> nat \<Rightarrow> (jsstring \<times> jsnum) list \<Rightarrow> jsstring" where
  "fuelRows eng ind [] = []"
| "fuelRows eng ind ((label, n) # rows) =
     fuelItem ind label (numToString eng n) @ fuelRows eng ind rows"

definition priceColumn :: "engine \<Rightarrow> jsstring \<Rightarrow> (jsstring \<times> jsnum) list \<Rightarrow> jsstring" where
  \<open>priceColumn eng columnTitle rows =
     (if rows = [] then []
      else js ''<div class="price-column"><h4>'' @ columnTitle @ js ''</h4>'' @
           fuelRows eng 24 rows @ js ''</div>'')\<close>

text \<open>
  The response of the specification's example: regional prices with gasoline at 1.8 and
  diesel at 0, and the HTML expected for it.
\<close>

definition exampleFuelData :: jsval where
  "exampleFuelData =
     JObj [(js ''price_data'',
            JObj [(js ''regional'',
                   JObj [(js ''region'', JStr (js ''Lazio'')),
                         (js ''prices'',
                          JObj [(js ''gasoline'', JNum onePointEight),
                                (js ''diesel'', JNum (Finite 0))])])])]"

definition exampleFuelHtml :: jsstring where
  \<open>exampleFuelHtml =
     js ''<div class="prices-container" style="display: flex; gap: 2rem;">'' @
     js ''<div class="price-column"><h4>Media Lazio</h4>'' @
     nl @ sp 24 @ js ''<div class="fuel-item">'' @
     nl @ sp 28 @ js ''<span class="fuel-type">Benzina</span>'' @
     nl @ sp 28 @ js ''<span class="fuel-price">'' @ euro @ js ''1.8</span>'' @
     nl @ sp 24 @ js ''</div>'' @
     nl @ sp 20 @
     js ''</div>'' @
     js ''</div>''\<close>

text \<open>
  A gateway error whose detail does not hold \<^verbatim>\<open>RESOURCE_EXHAUSTED\<close> but happens to
  hold the digits 429.
\<close>

definition exampleLateResponse :: response where
  "exampleLateResponse =
     \<lparr>status = 502,
      json = Inr (JObj [(js ''detail'', JStr (js ''upstream answered 4290 ms late''))])\<rparr>"

text \<open>
  A successful chat response for the query of \<open>examplePage\<close>, and the HTML the
  program renders for it.
\<close>

definition exampleChatResponse :: response where
  "exampleChatResponse =
     \<lparr>status = 200,
      json = Inr (JObj [(js ''car'', JStr (js ''Small city car.'' @ nl @ js ''Cheap to run.'')),
                        (js ''source'', JStr (js ''web'' @ nl @ js ''search''))])\<rparr>"

definition exampleChatHtml :: jsstring where
  \<open>exampleChatHtml =
     nl @ sp 8 @ js ''<h3>Analysis for "web'' @ nl @ js ''search"</h3>'' @
     nl @ sp 8 @ js ''<div class="agent-response">'' @
     nl @ sp 12 @ js ''<p>Small city car.<br>Cheap to run.</p>'' @
     nl @ sp 8 @ js ''</div>'' @
     nl @ sp 4\<close>

section \<open>Properties\<close>

subsection \<open>Strings\<close>

lemma startsWith_iff: "startsWith s n \<longleftrightarrow> (\<exists>t. s = n @ t)"
  by (induction s n rule: startsWith.induct) auto

lemma includesStr_iff: "includesStr s n \<longleftrightarrow> (\<exists>a b. s = a @ n @ b)"
proof (induction s)
  case Nil
  then show ?case by simp
next
  case (Cons c s)
  show ?case
  proof
    assume "includesStr (c # s) n"
    then consider "startsWith (c # s) n" | "includesStr s n" by auto
    then show "\<exists>a b. c # s = a @ n @ b"
    proof cases
      case 1
      then obtain t where "c # s = n @ t" using startsWith_iff by blast
      then have "c # s = [] @ n @ t" by simp
      then show ?thesis by blast
    next
      case 2
      then obtain a b where "s = a @ n @ b" using Cons.IH by blast
      then have "c # s = (c # a) @ n @ b" by simp
      then show ?thesis by blast
    qed
  next
    assume "\<exists>a b. c # s = a @ n @ b"
    then obtain a b where ab: "c # s = a @ n @ b" by blast
    show "includesStr (c # s) n"
    proof (cases a)
      case Nil
      with ab have "startsWith (c # s) n" using startsWith_iff by auto
      then show ?thesis by simp
    next
      case (Cons x a')
      with ab have "s = a' @ n @ b" by simp
      then have "includesStr s n" using Cons.IH by blast
      then show ?thesis by simp
    qed
  qed
qed

lemma trim_eq_Nil: "trim s = [] \<longleftrightarrow> (\<forall>c \<in> set s. isWhiteSpace c)"
proof
  assume "trim s = []"
  then have "dropWhile isWhiteSpace (rev (dropWhile isWhiteSpace s)) = []"
    by (simp add: trim_def)
  then have "\<forall>c \<in> set (dropWhile isWhiteSpace s). isWhiteSpace c"
    by simp
  moreover have "\<forall>c \<in> set (takeWhile isWhiteSpace s). isWhiteSpace c"
    by (auto dest: set_takeWhileD)
  ultimately show "\<forall>c \<in> set s. isWhiteSpace c"
    by (metis Un_iff set_append takeWhile_dropWhile_id)
next
  assume "\<forall>c \<in> set s. isWhiteSpace c"
  then show "trim s = []"
    by (auto simp add: trim_def dest: set_dropWhileD)
qed

lemma replaceNewlines_no_newline: "0x000A \<notin> set (replaceNewlines s)"
  by (induction s) (auto simp add: replaceNewlines_def js_def)

lemma strip_quota [simp]: "stripErrorPrefix quotaExceededMessage = quotaExceededMessage"
  by (simp add: stripErrorPrefix_def quotaExceededMessage_def warningSign_def js_def)

lemma strip_unavailable [simp]:
  "stripErrorPrefix serviceUnavailableMessage = serviceUnavailableMessage"
  by (simp add: stripErrorPrefix_def serviceUnavailableMessage_def warningSign_def js_def)

lemma strip_api_error [simp]:
  "stripErrorPrefix (js ''API Error: '' @ x) = js ''API Error: '' @ x"
  by (simp add: stripErrorPrefix_def js_def)

lemma serviceUnavailable_neq_quota: "serviceUnavailableMessage \<noteq> quotaExceededMessage"
  by (simp add: serviceUnavailableMessage_def quotaExceededMessage_def js_def)

lemma apiError_neq_quota: "js ''API Error: '' @ x \<noteq> quotaExceededMessage"
  by (simp add: quotaExceededMessage_def warningSign_def js_def)

subsection \<open>The agent status\<close>

text \<open>
  Claim C6. When the agent-status body is an object whose \<^verbatim>\<open>available\<close> is
  \<^verbatim>\<open>false\<close>, \<^verbatim>\<open>checkAgentStatus\<close> disables the search button and the search input
  (each where the page has it) and sets the explanatory texts: the button's label and
  title, the input's placeholder, with the dimmed, not-allowed styling.
\<close>

theorem checkAgentStatus_unavailable:
  assumes "json r = Inr (JObj kv)"
    and "map_of kv (js ''available'') = Some (JBool False)"
  shows "searchBtn (checkAgentStatus (Responded r) p) =
           (case searchBtn p of
              None \<Rightarrow> None
            | Some b \<Rightarrow>
                Some (b\<lparr>disabled := True,
                        textContent := js ''Agent Unavailable'',
                        title := js ''Agent API Key is missing'',
                        opacity := js ''0.6'',
                        cursor := js ''not-allowed''\<rparr>))
         \<and> searchInput (checkAgentStatus (Responded r) p) =
           (case searchInput p of
              None \<Rightarrow> None
            | Some i \<Rightarrow>
                Some (i\<lparr>disabled := True,
                        placeholder := js ''Agent is offline (API Key missing)'',
                        cursor := js ''not-allowed''\<rparr>))"
  using assms
  by (simp add: checkAgentStatus_def checkAgentStatus_try_def emit_def disableButton_def
      disableInput_def split: option.splits)

theorem checkAgentStatus_unavailable_witness:
  "searchBtn (checkAgentStatus
      (Responded \<lparr>status = 200, json = Inr (JObj [(js ''available'', JBool False)])\<rparr>)
      examplePage) =
     Some (blank\<lparr>disabled := True,
                 textContent := js ''Agent Unavailable'',
                 title := js ''Agent API Key is missing'',
                 opacity := js ''0.6'',
                 cursor := js ''not-allowed''\<rparr>)
   \<and> searchInput (checkAgentStatus
      (Responded \<lparr>status = 200, json = Inr (JObj [(js ''available'', JBool False)])\<rparr>)
      examplePage) =
     Some (blank\<lparr>disabled := True,
                 placeholder := js ''Agent is offline (API Key missing)'',
                 cursor := js ''not-allowed'',
                 elemValue := js ''Fiat Panda''\<rparr>)"
  using checkAgentStatus_unavailable
    [of "\<lparr>status = 200, json = Inr (JObj [(js ''available'', JBool False)])\<rparr>"
        "[(js ''available'', JBool False)]" examplePage]
  by (simp add: examplePage_def blank_def)

text \<open>
  Claim C9. When the status request fails in transport, because \<^verbatim>\<open>fetch\<close> rejects or
  the body does not parse, \<^verbatim>\<open>checkAgentStatus\<close> changes no element: the button and the
  input keep their enabled state, texts and styling. Only the request and the logged
  error are added to the trace.
\<close>

theorem checkAgentStatus_fail_open:
  assumes "net = FetchFailed e \<or> (\<exists>r. net = Responded r \<and> json r = Inl e)"
  shows "checkAgentStatus net p =
           p\<lparr>effects := effects p @
                 [Fetch (js ''/api/v1/agent/status'') None,
                  ConsoleError (js ''Failed to check agent status:'') e]\<rparr>"
  using assms
  by (auto simp add: checkAgentStatus_def checkAgentStatus_try_def emit_def)

theorem checkAgentStatus_fail_open_witness:
  "searchBtn (checkAgentStatus (FetchFailed (Rejection (js ''Failed to fetch''))) examplePage)
     = Some (blank\<lparr>textContent := js ''Analyze''\<rparr>)
   \<and> searchInput (checkAgentStatus
        (Responded \<lparr>status = 200, json = Inl (Rejection (js ''Unexpected token''))\<rparr>) examplePage)
     = Some (blank\<lparr>elemValue := js ''Fiat Panda''\<rparr>)"
  using checkAgentStatus_fail_open
    [of "FetchFailed (Rejection (js ''Failed to fetch''))" "Rejection (js ''Failed to fetch'')"
        examplePage]
    checkAgentStatus_fail_open
    [of "Responded \<lparr>status = 200, json = Inl (Rejection (js ''Unexpected token''))\<rparr>"
        "Rejection (js ''Unexpected token'')" examplePage]
  by (simp add: examplePage_def)

subsection \<open>The search\<close>

lemma getProp_truthy: "truthy v \<Longrightarrow> \<exists>x. getProp v k = Inr x"
  by (cases v) simp_all

lemma trim_example: "trim (js ''Fiat Panda'') \<noteq> []"
  by (simp add: trim_eq_Nil js_def isWhiteSpace_def)

lemma examplePage_ready:
  "searchInput examplePage = Some (blank\<lparr>elemValue := js ''Fiat Panda''\<rparr>)"
  "trim (elemValue (blank\<lparr>elemValue := js ''Fiat Panda''\<rparr>)) \<noteq> []"
  "resultsSection examplePage = Some (blank\<lparr>classList := [js ''results-hidden'']\<rparr>)"
  "resultsContent examplePage = Some blank"
  by (simp_all add: examplePage_def trim_example)

text \<open>
  Claim C4. When the input's value is empty or holds only white space,
  \<^verbatim>\<open>handleSearch\<close> alerts the user and returns: whatever the network would answer, no
  request is issued and no element, the results section included, is changed. The click
  handler of the earlier version does the same.
\<close>

theorem handleSearch_blank_query:
  assumes "searchInput p = Some inp"
    and "\<forall>c \<in> set (elemValue inp). isWhiteSpace c"
  shows "handleSearch eng net p =
           Done (p\<lparr>effects := effects p @ [Alert (js ''Please enter a car to analyze.'')]\<rparr>)
         \<and> searchClick p =
           Done (p\<lparr>effects := effects p @ [Alert (js ''Please enter a car to analyze.'')]\<rparr>)"
  using assms by (simp add: handleSearch_def searchClick_def trim_eq_Nil emit_def)

theorem handleSearch_blank_query_witness:
  "isWhiteSpace 0x0020 \<and> isWhiteSpace 0x0009 \<and> isWhiteSpace 0x00A0
   \<and> handleSearch exampleEngine
         (Responded \<lparr>status = 200, json = Inr (JObj [(js ''car'', JStr (js ''x''))])\<rparr>)
         (examplePage\<lparr>searchInput := Some (blank\<lparr>elemValue := [0x0020, 0x0009, 0x00A0]\<rparr>)\<rparr>)
       = Done (examplePage
                 \<lparr>searchInput := Some (blank\<lparr>elemValue := [0x0020, 0x0009, 0x00A0]\<rparr>),
                  effects := [Alert (js ''Please enter a car to analyze.'')]\<rparr>)
   \<and> searchClick
         (examplePage\<lparr>searchInput := Some (blank\<lparr>elemValue := [0x0020, 0x0009, 0x00A0]\<rparr>)\<rparr>)
       = Done (examplePage
                 \<lparr>searchInput := Some (blank\<lparr>elemValue := [0x0020, 0x0009, 0x00A0]\<rparr>),
                  effects := [Alert (js ''Please enter a car to analyze.'')]\<rparr>)"
proof -
  have ws: "\<forall>c \<in> set [0x0020, 0x0009, 0x00A0 :: 16 word]. isWhiteSpace c"
    by (simp add: isWhiteSpace_def)
  show ?thesis
    using ws handleSearch_blank_query
      [of "examplePage\<lparr>searchInput := Some (blank\<lparr>elemValue := [0x0020, 0x0009, 0x00A0]\<rparr>)\<rparr>"
          "blank\<lparr>elemValue := [0x0020, 0x0009, 0x00A0]\<rparr>" exampleEngine
          "Responded \<lparr>status = 200, json = Inr (JObj [(js ''car'', JStr (js ''x''))])\<rparr>"]
    by (simp add: examplePage_def)
qed

text \<open>The page as \<^verbatim>\<open>handleSearch\<close> leaves it when its \<^verbatim>\<open>try\<close> block throws.\<close>

lemma handleSearch_catch:
  assumes "searchInput p = Some inp" and "trim (elemValue inp) \<noteq> []"
    and "resultsSection p = Some sec" and "resultsContent p = Some rc"
    and "\<And>q. handleSearch_try eng net q = Inl e"
  shows \<open>\<exists>p'. handleSearch eng net p = Done p'
           \<and> resultsContent p' =
               Some (rc\<lparr>innerHTML :=
                 js ''<p class="error">'' @ stripErrorPrefix (message eng e) @ js ''</p>''\<rparr>)
           \<and> effects p' = effects p @
               [Fetch (js ''/api/v1/agent/chat'')
                  (Some (JObj [(js ''query'', JStr (trim (elemValue inp)))])),
                ConsoleError (js ''Error fetching data:'') e]\<close>
  using assms by (simp add: handleSearch_def Let_def setResultsHtml_def emit_def)

lemma quotaExhausted_typed:
  assumes "map_of kv (js ''detail'') = map_option JStr detail"
  shows "quotaExhausted (JObj kv) =
           Inr (case detail of
                  None \<Rightarrow> False
                | Some d \<Rightarrow>
                    includesStr d (js ''RESOURCE_EXHAUSTED'') \<or> includesStr d (js ''429''))"
  using assms
  by (cases detail) (auto simp add: quotaExhausted_def js_def split: bool.splits)

text \<open>
  Claim C1, as amended. For a chat response that is not OK, with an error body that does
  not parse or is shaped as the interface describes it (an object whose \<^verbatim>\<open>detail\<close> is
  a string or absent): with status 429 or 502 and a detail that contains
  \<^verbatim>\<open>RESOURCE_EXHAUSTED\<close> or contains \<^verbatim>\<open>429\<close>, the results show the quota message
  "Agent usage limit exceeded"; with status 429 or 502 and a detail that contains
  neither text (or no detail), the generic service-unavailable message; with any other
  status, "API Error: " followed by the status.
\<close>

theorem handleSearch_http_failure:
  assumes "searchInput p = Some inp" and "trim (elemValue inp) \<noteq> []"
    and "resultsSection p = Some sec" and "resultsContent p = Some rc"
    and "\<not> ok r"
    and "(json r = Inl e0 \<and> detail = None)
         \<or> (json r = Inr (JObj kv) \<and> map_of kv (js ''detail'') = map_option JStr detail)"
  shows \<open>\<exists>p'. handleSearch eng (Responded r) p = Done p'
           \<and> resultsContent p' =
               Some (rc\<lparr>innerHTML :=
                 js ''<p class="error">'' @
                 (if status r = 429 \<or> status r = 502 then
                    if (case detail of
                          None \<Rightarrow> False
                        | Some d \<Rightarrow>
                            includesStr d (js ''RESOURCE_EXHAUSTED'') \<or>
                            includesStr d (js ''429''))
                    then
                      warningSign @ js '' Agent usage limit exceeded. Please try again later.''
                    else
                      warningSign @
                        js '' Agent service is temporarily unavailable. Please try again.''
                  else js ''API Error: '' @ decimal (status r)) @
                 js ''</p>''\<rparr>)\<close>
proof -
  let ?Q = "case detail of
              None \<Rightarrow> False
            | Some d \<Rightarrow>
                includesStr d (js ''RESOURCE_EXHAUSTED'') \<or> includesStr d (js ''429'')"
  let ?M = "if status r = 429 \<or> status r = 502 then
              if ?Q then quotaExceededMessage else serviceUnavailableMessage
            else js ''API Error: '' @ decimal (status r)"
  have q: "quotaExhausted (case json r of Inl e \<Rightarrow> JObj [] | Inr v \<Rightarrow> v) = Inr ?Q"
    using assms(6) quotaExhausted_typed [of kv detail]
    by (auto simp add: quotaExhausted_def)
  have tr: "\<And>q. handleSearch_try eng (Responded r) q = Inl (Error ?M)"
    using assms(5) q by (simp add: handleSearch_try_def)
  have msg: "stripErrorPrefix (message eng (Error ?M)) = ?M"
    by (simp add: message_def)
  from handleSearch_catch [OF assms(1-4) tr] msg
  show ?thesis
    by (auto simp add: quotaExceededMessage_def serviceUnavailableMessage_def)
qed

theorem handleSearch_http_failure_witness:
  \<open>includesStr (js ''RESOURCE_EXHAUSTED: quota'') (js ''RESOURCE_EXHAUSTED'')
   \<and> (\<exists>p'. handleSearch exampleEngine
          (Responded \<lparr>status = 429,
             json = Inr (JObj [(js ''detail'', JStr (js ''RESOURCE_EXHAUSTED: quota''))])\<rparr>)
          examplePage = Done p'
        \<and> resultsContent p' =
            Some (blank\<lparr>innerHTML :=
              js ''<p class="error">'' @ warningSign @
              js '' Agent usage limit exceeded. Please try again later.'' @ js ''</p>''\<rparr>))\<close>
proof -
  have m: "includesStr (js ''RESOURCE_EXHAUSTED: quota'') (js ''RESOURCE_EXHAUSTED'')"
    by (simp add: js_def)
  have nok: "\<not> ok \<lparr>status = 429,
             json = Inr (JObj [(js ''detail'', JStr (js ''RESOURCE_EXHAUSTED: quota''))])\<rparr>"
    by (simp add: ok_def)
  have d: "(json \<lparr>status = 429,
             json = Inr (JObj [(js ''detail'', JStr (js ''RESOURCE_EXHAUSTED: quota''))])\<rparr>
              = Inl (Rejection []) \<and> Some (js ''RESOURCE_EXHAUSTED: quota'') = None)
           \<or> (json \<lparr>status = 429,
             json = Inr (JObj [(js ''detail'', JStr (js ''RESOURCE_EXHAUSTED: quota''))])\<rparr>
              = Inr (JObj [(js ''detail'', JStr (js ''RESOURCE_EXHAUSTED: quota''))])
              \<and> map_of [(js ''detail'', JStr (js ''RESOURCE_EXHAUSTED: quota''))] (js ''detail'')
                  = map_option JStr (Some (js ''RESOURCE_EXHAUSTED: quota'')))"
    by simp
  from handleSearch_http_failure [OF examplePage_ready nok d, of exampleEngine] m
  show ?thesis by simp
qed

text \<open>
  Claim C1 as first stated fails where the specification's marker,
  \<^verbatim>\<open>RESOURCE_EXHAUSTED\<close>, is absent and the detail still holds the digits 429: for
  status 502 and the detail "upstream answered 4290 ms late" the results show the quota
  message, not the generic one.
\<close>

theorem handleSearch_marker_counterexample:
  \<open>status exampleLateResponse = 502
   \<and> json exampleLateResponse =
       Inr (JObj [(js ''detail'', JStr (js ''upstream answered 4290 ms late''))])
   \<and> \<not> includesStr (js ''upstream answered 4290 ms late'') (js ''RESOURCE_EXHAUSTED'')
   \<and> handleSearch exampleEngine (Responded exampleLateResponse) examplePage =
       Done (examplePage
               \<lparr>resultsSection := Some blank,
                resultsContent :=
                  Some (blank\<lparr>innerHTML :=
                    js ''<p class="error">'' @ warningSign @
                    js '' Agent usage limit exceeded. Please try again later.'' @
                    js ''</p>''\<rparr>),
                effects :=
                  [Fetch (js ''/api/v1/agent/chat'')
                     (Some (JObj [(js ''query'', JStr (js ''Fiat Panda''))])),
                   ConsoleError (js ''Error fetching data:'')
                     (Error (warningSign @
                        js '' Agent usage limit exceeded. Please try again later.''))]\<rparr>)\<close>
  by code_simp

text \<open>
  Claim C10. For a chat response that is not OK and whose body does not parse,
  \<^verbatim>\<open>handleSearch\<close> still completes and shows an error message: the generic
  service-unavailable message for status 429 or 502, "API Error: " with the status
  otherwise. The error that is logged and shown is that message, not the parse failure,
  and it is never the quota message.
\<close>

theorem handleSearch_unparseable_error_body:
  assumes "searchInput p = Some inp" and "trim (elemValue inp) \<noteq> []"
    and "resultsSection p = Some sec" and "resultsContent p = Some rc"
    and "\<not> ok r"
    and "json r = Inl e0"
  shows \<open>\<exists>p' m. handleSearch eng (Responded r) p = Done p'
           \<and> m = (if status r = 429 \<or> status r = 502 then
                     warningSign @
                       js '' Agent service is temporarily unavailable. Please try again.''
                   else js ''API Error: '' @ decimal (status r))
           \<and> resultsContent p' =
               Some (rc\<lparr>innerHTML := js ''<p class="error">'' @ m @ js ''</p>''\<rparr>)
           \<and> effects p' = effects p @
               [Fetch (js ''/api/v1/agent/chat'')
                  (Some (JObj [(js ''query'', JStr (trim (elemValue inp)))])),
                ConsoleError (js ''Error fetching data:'') (Error m)]
           \<and> m \<noteq> warningSign @ js '' Agent usage limit exceeded. Please try again later.''\<close>
proof -
  let ?M = "if status r = 429 \<or> status r = 502 then serviceUnavailableMessage
            else js ''API Error: '' @ decimal (status r)"
  have tr: "\<And>q. handleSearch_try eng (Responded r) q = Inl (Error ?M)"
    using assms(5,6) by (auto simp add: handleSearch_try_def quotaExhausted_def)
  have msg: "stripErrorPrefix (message eng (Error ?M)) = ?M"
    by (simp add: message_def)
  have neq: "?M \<noteq> quotaExceededMessage"
    using serviceUnavailable_neq_quota apiError_neq_quota by simp
  from handleSearch_catch [OF assms(1-4) tr] msg neq
  show ?thesis
    by (auto simp add: quotaExceededMessage_def serviceUnavailableMessage_def)
qed

theorem handleSearch_unparseable_error_body_witness:
  \<open>\<exists>p'. handleSearch exampleEngine
          (Responded \<lparr>status = 502, json = Inl (Rejection (js ''Unexpected token <''))\<rparr>)
          examplePage = Done p'
        \<and> resultsContent p' =
            Some (blank\<lparr>innerHTML :=
              js ''<p class="error">'' @ warningSign @
              js '' Agent service is temporarily unavailable. Please try again.'' @
              js ''</p>''\<rparr>)\<close>
proof -
  have nok: "\<not> ok \<lparr>status = 502, json = Inl (Rejection (js ''Unexpected token <''))\<rparr>"
    by (simp add: ok_def)
  from handleSearch_unparseable_error_body [OF examplePage_ready nok, of _ exampleEngine]
  show ?thesis by auto
qed

text \<open>
  Claim C8. For an OK chat response (status 200 among them) whose parsed body has no
  truthy \<^verbatim>\<open>car\<close>, \<^verbatim>\<open>handleSearch\<close> renders the no-data message; nothing is logged as
  an error and \<^verbatim>\<open>displayResults\<close> does not write the results.
\<close>

theorem handleSearch_no_data:
  assumes "searchInput p = Some inp" and "trim (elemValue inp) \<noteq> []"
    and "resultsSection p = Some sec" and "resultsContent p = Some rc"
    and "ok r"
    and "json r = Inr data"
    and "\<forall>car. getProp data (js ''car'') = Inr car \<longrightarrow> \<not> truthy car"
  shows \<open>\<exists>p'. handleSearch eng (Responded r) p = Done p'
           \<and> resultsContent p' =
               Some (rc\<lparr>innerHTML := js ''<p>No data available for this car.</p>''\<rparr>)
           \<and> effects p' = effects p @
               [Fetch (js ''/api/v1/agent/chat'')
                  (Some (JObj [(js ''query'', JStr (trim (elemValue inp)))]))]\<close>
proof -
  have "\<And>q. handleSearch_try eng (Responded r) q =
          Inr (setResultsHtml (js ''<p>No data available for this car.</p>'') q)"
    using assms(5-7) getProp_truthy [of data "js ''car''"]
    by (auto simp add: handleSearch_try_def split: sum.splits)
  then show ?thesis
    using assms(1-4) by (simp add: handleSearch_def Let_def setResultsHtml_def emit_def)
qed

theorem handleSearch_no_data_witness:
  \<open>\<exists>p'. handleSearch exampleEngine
          (Responded \<lparr>status = 200, json = Inr (JObj [(js ''car'', JStr [])])\<rparr>)
          examplePage = Done p'
        \<and> resultsContent p' =
            Some (blank\<lparr>innerHTML := js ''<p>No data available for this car.</p>''\<rparr>)\<close>
proof -
  have okr: "ok \<lparr>status = 200, json = Inr (JObj [(js ''car'', JStr [])])\<rparr>"
    by (simp add: ok_def)
  have c: "\<forall>car. getProp (JObj [(js ''car'', JStr [])]) (js ''car'') = Inr car \<longrightarrow> \<not> truthy car"
    by simp
  from handleSearch_no_data [OF examplePage_ready okr _ c, of exampleEngine]
  show ?thesis by auto
qed

text \<open>
  What the code does on success. \<^verbatim>\<open>displayResults(resultText, query)\<close> puts its second
  argument in the heading and converts the newlines of its first; line 96 calls it with
  \<^verbatim>\<open>data.car\<close> and \<^verbatim>\<open>data.source\<close>, not with the \<^verbatim>\<open>query\<close> of line 57. So the
  heading holds the response's source text and the converted text is the car's.
\<close>

lemma handleSearch_success_rendering:
  assumes "searchInput p = Some inp" and "trim (elemValue inp) \<noteq> []"
    and "resultsSection p = Some sec" and "resultsContent p = Some rc"
    and "ok r"
    and "json r = Inr (JObj kv)"
    and "map_of kv (js ''car'') = Some (JStr car)" and "car \<noteq> []"
    and "map_of kv (js ''source'') = Some (JStr source)"
  shows \<open>\<exists>p'. handleSearch eng (Responded r) p = Done p'
           \<and> resultsContent p' =
               Some (rc\<lparr>innerHTML :=
                 nl @ sp 8 @ js ''<h3>Analysis for "'' @ source @ js ''"</h3>'' @
                 nl @ sp 8 @ js ''<div class="agent-response">'' @
                 nl @ sp 12 @ js ''<p>'' @
                 concat (map (\<lambda>c. if c = 0x000A then js ''<br>'' else [c]) car) @
                 js ''</p>'' @
                 nl @ sp 8 @ js ''</div>'' @
                 nl @ sp 4\<rparr>)
           \<and> 0x000A \<notin> set (concat (map (\<lambda>c. if c = 0x000A then js ''<br>'' else [c]) car))\<close>
proof -
  have "\<And>q rc'. resultsContent q = Some rc' \<Longrightarrow>
          handleSearch_try eng (Responded r) q =
            Inr (q\<lparr>resultsContent :=
                   Some (rc'\<lparr>innerHTML := resultsHtml source (replaceNewlines car)\<rparr>)\<rparr>)"
    using assms(5-9) by (simp add: handleSearch_try_def displayResults_def)
  then show ?thesis
    using assms(1-4) replaceNewlines_no_newline [of car]
    by (simp add: handleSearch_def Let_def setResultsHtml_def emit_def resultsHtml_def
        replaceNewlines_def)
qed

text \<open>
  The earlier click handler renders the query that was typed in the heading.
\<close>

lemma searchClick_heading:
  assumes "searchInput p = Some inp" and "trim (elemValue inp) \<noteq> []"
    and "resultsSection p = Some sec" and "resultsContent p = Some rc"
  shows \<open>\<exists>p'. searchClick p = Done p'
           \<and> resultsContent p' =
               Some (rc\<lparr>innerHTML :=
                 nl @ sp 12 @ js ''<h3>Results for "'' @ trim (elemValue inp) @ js ''"</h3>'' @
                 nl @ sp 12 @ js ''<p><strong>Estimated Cost:</strong> $12,500 - $15,000</p>'' @
                 nl @ sp 12 @ js ''<p><strong>Maintenance Score:</strong> High</p>'' @
                 nl @ sp 12 @ js ''<p><strong>Reliability:</strong> Average</p>'' @
                 nl @ sp 8\<rparr>)\<close>
  using assms
  by (simp add: searchClick_def Let_def setResultsHtml_def mockResultsHtml_def)

text \<open>
  Claim C2. The claim asks for a heading that includes the query the user typed and for
  the source text with its newlines converted to \<^verbatim>\<open><br>\<close>. The program does neither:
  for the query "Fiat Panda" and a response whose car and source both hold a newline, the
  rendered HTML has the source, unconverted, in the heading and contains the query
  nowhere. This goes against the documentation of \<^verbatim>\<open>displayResults\<close>, whose second
  parameter is "the search query", and against the earlier version.
\<close>

theorem handleSearch_heading_evaluation:
  "handleSearch exampleEngine (Responded exampleChatResponse) examplePage =
     Done (examplePage
             \<lparr>resultsSection := Some blank,
              resultsContent := Some (blank\<lparr>innerHTML := exampleChatHtml\<rparr>),
              effects := [Fetch (js ''/api/v1/agent/chat'')
                            (Some (JObj [(js ''query'', JStr (js ''Fiat Panda''))]))]\<rparr>)
   \<and> \<not> includesStr exampleChatHtml (js ''Fiat Panda'')
   \<and> \<not> includesStr exampleChatHtml (js ''web<br>search'')"
  by code_simp

subsection \<open>The fuel-price dashboard\<close>

text \<open>
  Claim C5. For a fuel-price response with status 403 whose body carries a detail string,
  \<^verbatim>\<open>fetchFuelPrice\<close> sets the location text to "Location Unavailable" and puts the
  detail, as the server sent it, inside the price display. The resulting page is exactly
  this: no error is logged, so the generic failure path is not taken, and
  \<^verbatim>\<open>updateDashboardUI\<close> does not run. The earlier \<^verbatim>\<open>fetchGasPrice\<close> does the same,
  without the loading texts in between.
\<close>

theorem fetchFuelPrice_forbidden:
  assumes "dashboardSection p = Some ds" and "userLocation p = Some ul"
    and "gasPrices p = Some g"
    and "status r = 403"
    and "json r = Inr (JObj kv)"
    and "map_of kv (js ''detail'') = Some (JStr d)"
  shows \<open>fetchFuelPrice eng (Responded r) p =
           p\<lparr>dashboardSection :=
               Some (ds\<lparr>classList :=
                 filter (\<lambda>c. c \<noteq> js ''dashboard-hidden'') (classList ds)\<rparr>),
             userLocation := Some (ul\<lparr>textContent := js ''Location Unavailable''\<rparr>),
             gasPrices :=
               Some (g\<lparr>innerHTML := js ''<p class="error-message">'' @ d @ js ''</p>''\<rparr>),
             effects := effects p @ [Fetch (js ''/api/v1/fuel-price'') None]\<rparr>
         \<and> fetchGasPrice eng (Responded r) p =
           Done (p\<lparr>dashboardSection :=
               Some (ds\<lparr>classList :=
                 filter (\<lambda>c. c \<noteq> js ''dashboard-hidden'') (classList ds)\<rparr>),
             userLocation := Some (ul\<lparr>textContent := js ''Location Unavailable''\<rparr>),
             gasPrices :=
               Some (g\<lparr>innerHTML := js ''<p class="error-message">'' @ d @ js ''</p>''\<rparr>),
             effects := effects p @ [Fetch (js ''/api/v1/gas-price'') None]\<rparr>)\<close>
  using assms
  by (simp add: fetchFuelPrice_def fetchFuelPrice_try_def fetchGasPrice_def
      fetchGasPrice_try_def Let_def setLocationText_def setPricesHtml_def emit_def)

theorem fetchFuelPrice_forbidden_witness:
  \<open>fetchFuelPrice exampleEngine
     (Responded \<lparr>status = 403,
        json = Inr (JObj [(js ''detail'', JStr (js ''Location access denied''))])\<rparr>)
     examplePage =
   examplePage
     \<lparr>dashboardSection := Some blank,
      userLocation := Some (blank\<lparr>textContent := js ''Location Unavailable''\<rparr>),
      gasPrices :=
        Some (blank\<lparr>innerHTML :=
          js ''<p class="error-message">'' @ js ''Location access denied'' @ js ''</p>''\<rparr>),
      effects := [Fetch (js ''/api/v1/fuel-price'') None]\<rparr>
   \<and> fetchGasPrice exampleEngine
     (Responded \<lparr>status = 403,
        json = Inr (JObj [(js ''detail'', JStr (js ''Location access denied''))])\<rparr>)
     examplePage =
   Done (examplePage
     \<lparr>dashboardSection := Some blank,
      userLocation := Some (blank\<lparr>textContent := js ''Location Unavailable''\<rparr>),
      gasPrices :=
        Some (blank\<lparr>innerHTML :=
          js ''<p class="error-message">'' @ js ''Location access denied'' @ js ''</p>''\<rparr>),
      effects := [Fetch (js ''/api/v1/gas-price'') None]\<rparr>)\<close>
  using fetchFuelPrice_forbidden
    [of examplePage "blank\<lparr>classList := [js ''dashboard-hidden'']\<rparr>" blank blank
        "\<lparr>status = 403,
          json = Inr (JObj [(js ''detail'', JStr (js ''Location access denied''))])\<rparr>"
        "[(js ''detail'', JStr (js ''Location access denied''))]"
        "js ''Location access denied''" exampleEngine]
  by (simp add: examplePage_def blank_def)

lemma locationText_city:
  assumes "map_of kv (js ''location'') = Some (JObj loc)"
    and "map_of loc (js ''city'') = Some (JStr city)" and "city \<noteq> []"
    and "map_of loc (js ''regionName'') = map_option JStr regionName"
    and "map_of loc (js ''region'') = map_option JStr region"
    and "map_of loc (js ''countryCode'') = map_option JStr countryCode"
  shows "locationText eng (JObj kv) =
           Inr (city @ js '', '' @ firstPresent [regionName, region] [] @ js '' ('' @
                firstPresent [countryCode] (js ''IT'') @ js '')'')"
  using assms
  by (cases regionName; cases region; cases countryCode)
     (simp_all add: locationText_def orElse_def)

lemma locationText_unknown:
  assumes "\<forall>l c. map_of kv (js ''location'') = Some l \<longrightarrow> truthy l \<longrightarrow>
             getProp l (js ''city'') = Inr c \<longrightarrow> \<not> truthy c"
  shows "locationText eng (JObj kv) = Inr (js ''Unknown Location'')"
proof (cases "map_of kv (js ''location'')")
  case None
  then show ?thesis by (simp add: locationText_def)
next
  case (Some l)
  show ?thesis
  proof (cases "truthy l")
    case False
    with Some show ?thesis by (simp add: locationText_def)
  next
    case True
    then obtain c where c: "getProp l (js ''city'') = Inr c"
      using getProp_truthy by blast
    with assms Some True have "\<not> truthy c" by blast
    with Some True c show ?thesis by (simp add: locationText_def)
  qed
qed

lemma updateDashboardUI_location_text:
  assumes "userLocation p = Some ul" and "locationText eng data = Inr t"
  shows "userLocation (pageOf (updateDashboardUI eng data p)) = Some (ul\<lparr>textContent := t\<rparr>)"
  using assms
  by (simp add: updateDashboardUI_def Let_def split: sum.splits option.splits)

text \<open>
  Claim C7. \<^verbatim>\<open>updateDashboardUI\<close> on a response object: when its location has a city,
  the location text is "city, region (country)", the region being \<^verbatim>\<open>regionName\<close> when
  present, else \<^verbatim>\<open>region\<close>, else empty, and the country \<^verbatim>\<open>countryCode\<close> when
  present, else "IT"; when there is no location or no city, it is "Unknown Location".
  The text is written before the prices are rendered and stays whatever happens there.
\<close>

theorem updateDashboardUI_location:
  assumes "userLocation p = Some ul"
  shows "(map_of kv (js ''location'') = Some (JObj loc)
          \<and> map_of loc (js ''city'') = Some (JStr city) \<and> city \<noteq> []
          \<and> map_of loc (js ''regionName'') = map_option JStr regionName
          \<and> map_of loc (js ''region'') = map_option JStr region
          \<and> map_of loc (js ''countryCode'') = map_option JStr countryCode
          \<longrightarrow> userLocation (pageOf (updateDashboardUI eng (JObj kv) p)) =
                Some (ul\<lparr>textContent :=
                  city @ js '', '' @ firstPresent [regionName, region] [] @ js '' ('' @
                  firstPresent [countryCode] (js ''IT'') @ js '')''\<rparr>))
       \<and> ((\<forall>l c. map_of kv (js ''location'') = Some l \<longrightarrow> truthy l \<longrightarrow>
                  getProp l (js ''city'') = Inr c \<longrightarrow> \<not> truthy c)
          \<longrightarrow> userLocation (pageOf (updateDashboardUI eng (JObj kv) p)) =
                Some (ul\<lparr>textContent := js ''Unknown Location''\<rparr>))"
proof (intro conjI impI)
  assume a: "map_of kv (js ''location'') = Some (JObj loc)
          \<and> map_of loc (js ''city'') = Some (JStr city) \<and> city \<noteq> []
          \<and> map_of loc (js ''regionName'') = map_option JStr regionName
          \<and> map_of loc (js ''region'') = map_option JStr region
          \<and> map_of loc (js ''countryCode'') = map_option JStr countryCode"
  then have "locationText eng (JObj kv) =
           Inr (city @ js '', '' @ firstPresent [regionName, region] [] @ js '' ('' @
                firstPresent [countryCode] (js ''IT'') @ js '')'')"
    using locationText_city by blast
  then show "userLocation (pageOf (updateDashboardUI eng (JObj kv) p)) =
                Some (ul\<lparr>textContent :=
                  city @ js '', '' @ firstPresent [regionName, region] [] @ js '' ('' @
                  firstPresent [countryCode] (js ''IT'') @ js '')''\<rparr>)"
    by (rule updateDashboardUI_location_text [OF assms])
next
  assume "\<forall>l c. map_of kv (js ''location'') = Some l \<longrightarrow> truthy l \<longrightarrow>
                  getProp l (js ''city'') = Inr c \<longrightarrow> \<not> truthy c"
  then have "locationText eng (JObj kv) = Inr (js ''Unknown Location'')"
    by (rule locationText_unknown)
  then show "userLocation (pageOf (updateDashboardUI eng (JObj kv) p)) =
                Some (ul\<lparr>textContent := js ''Unknown Location''\<rparr>)"
    by (rule updateDashboardUI_location_text [OF assms])
qed

theorem updateDashboardUI_location_witness:
  "userLocation (pageOf (updateDashboardUI exampleEngine
      (JObj [(js ''location'',
              JObj [(js ''city'', JStr (js ''Roma'')), (js ''region'', JStr (js ''Lazio''))])])
      examplePage)) =
     Some (blank\<lparr>textContent := js ''Roma, Lazio (IT)''\<rparr>)
   \<and> userLocation (pageOf (updateDashboardUI exampleEngine (JObj []) examplePage)) =
     Some (blank\<lparr>textContent := js ''Unknown Location''\<rparr>)"
proof -
  have ul: "userLocation examplePage = Some blank"
    by (simp add: examplePage_def)
  have kv: "map_of [(js ''city'', JStr (js ''Roma'')), (js ''region'', JStr (js ''Lazio''))]
              (js ''regionName'') = map_option JStr None"
    "map_of [(js ''city'', JStr (js ''Roma'')), (js ''region'', JStr (js ''Lazio''))]
              (js ''region'') = map_option JStr (Some (js ''Lazio''))"
    "map_of [(js ''city'', JStr (js ''Roma'')), (js ''region'', JStr (js ''Lazio''))]
              (js ''countryCode'') = map_option JStr None"
    "js ''Roma'' \<noteq> []"
    by (simp_all add: js_def)
  have tx: "js ''Roma'' @ js '', '' @ firstPresent [None, Some (js ''Lazio'')] [] @ js '' ('' @
               firstPresent [None] (js ''IT'') @ js '')'' = js ''Roma, Lazio (IT)''"
    by (simp add: js_def)
  from updateDashboardUI_location
    [OF ul, of "[(js ''location'',
              JObj [(js ''city'', JStr (js ''Roma'')), (js ''region'', JStr (js ''Lazio''))])]"
       "[(js ''city'', JStr (js ''Roma'')), (js ''region'', JStr (js ''Lazio''))]"
       "js ''Roma''" None "Some (js ''Lazio'')" None exampleEngine]
    kv tx
  have a: "userLocation (pageOf (updateDashboardUI exampleEngine
      (JObj [(js ''location'',
              JObj [(js ''city'', JStr (js ''Roma'')), (js ''region'', JStr (js ''Lazio''))])])
      examplePage)) =
     Some (blank\<lparr>textContent := js ''Roma, Lazio (IT)''\<rparr>)"
    by simp
  from updateDashboardUI_location [OF ul, of "[]" _ _ _ _ _ exampleEngine]
  have b: "userLocation (pageOf (updateDashboardUI exampleEngine (JObj []) examplePage)) =
     Some (blank\<lparr>textContent := js ''Unknown Location''\<rparr>)"
    by simp
  from a b show ?thesis by simp
qed

lemma positive_truthy: "positive n \<Longrightarrow> truthy (JNum n)"
  by (cases n) simp_all

lemma priceShown_number:
  "map_of prices key = Some (JNum n) \<Longrightarrow>
   priceShown eng (JObj prices) key =
     Inr (if positive n then Some (numToString eng n) else None)"
  using positive_truthy [of n]
  by (auto simp add: priceShown_def greaterThanZero_def)

lemma priceShown_absent:
  "map_of prices key = None \<or> map_of prices key = Some JNull \<Longrightarrow>
   priceShown eng (JObj prices) key = Inr None"
  by (auto simp add: priceShown_def)

lemma priceLoop_numeric:
  "numericAmong es prices \<Longrightarrow>
   priceLoop eng ind (JObj prices) es (html, hasPrices) =
     Inr (html @ fuelRows eng ind (shownAmong es prices),
          hasPrices \<or> shownAmong es prices \<noteq> [])"
proof (induction es arbitrary: html hasPrices)
  case Nil
  then show ?case by simp
next
  case (Cons e es)
  obtain key label where e: "e = (key, label)" by (cases e)
  from Cons.prems e have rest: "numericAmong es prices" by simp
  show ?case
  proof (cases "map_of prices key")
    case None
    then show ?thesis
      using Cons.IH [OF rest] e priceShown_absent [of prices key eng] by simp
  next
    case (Some v)
    show ?thesis
    proof (cases v)
      case JNull
      then show ?thesis
        using Some Cons.IH [OF rest] e priceShown_absent [of prices key eng] by simp
    next
      case (JNum n)
      then show ?thesis
        using Some Cons.IH [OF rest] e priceShown_number [of prices key n eng] by simp
    qed (use Some Cons.prems e in simp_all)
  qed
qed

lemma generatePriceList_numeric:
  "numericPrices prices \<Longrightarrow>
   generatePriceList eng (JObj prices) columnTitle =
     Inr (priceColumn eng columnTitle (shownPrices prices))"
  by (simp add: generatePriceList_def priceColumn_def shownPrices_def numericPrices_def
      priceLoop_numeric)

lemma shownAmong_iff:
  "distinct (map snd es) \<Longrightarrow>
   (label, n) \<in> set (shownAmong es prices) \<longleftrightarrow>
     (\<exists>key. (key, label) \<in> set es \<and> map_of prices key = Some (JNum n) \<and> positive n)"
proof (induction es)
  case Nil
  then show ?case by simp
next
  case (Cons e es)
  obtain k l where e: "e = (k, l)" by (cases e)
  from Cons.prems e have d: "distinct (map snd es)" and l: "l \<notin> snd ` set es" by simp_all
  from l have nl: "\<And>key. (key, l) \<notin> set es" by force
  show ?case
    using Cons.IH [OF d] e nl
    by (auto split: option.splits jsval.splits)
qed

lemma shownPrices_iff:
  "(label, n) \<in> set (shownPrices prices) \<longleftrightarrow>
     (\<exists>key. (key, label) \<in> set fuelMapping \<and> map_of prices key = Some (JNum n)
            \<and> positive n)"
proof -
  have "distinct (map snd fuelMapping)"
    by (simp add: fuelMapping_def js_def)
  then show ?thesis
    unfolding shownPrices_def by (rule shownAmong_iff)
qed

lemma regionalColumn_numeric:
  assumes "map_of pd (js ''regional'') = map_option JObj regional"
    and "\<And>ro. regional = Some ro \<Longrightarrow>
           map_of ro (js ''region'') = Some (JStr rname)
           \<and> map_of ro (js ''prices'') = Some (JObj rprices) \<and> numericPrices rprices"
  shows "regionalColumn eng (JObj pd) =
           Inr (if regional = None then []
                else priceColumn eng (js ''Media '' @ rname) (shownPrices rprices))"
proof (cases regional)
  case None
  with assms(1) show ?thesis by (simp add: regionalColumn_def)
next
  case (Some ro)
  with assms(1) assms(2) [OF Some] show ?thesis
    by (simp add: regionalColumn_def generatePriceList_numeric)
qed

lemma nationalColumn_numeric:
  assumes "map_of pd (js ''national'') = map_option JObj national"
    and "\<And>no. national = Some no \<Longrightarrow>
           map_of no (js ''prices'') = Some (JObj nprices) \<and> numericPrices nprices"
  shows "nationalColumn eng (JObj pd) =
           Inr (if national = None then []
                else priceColumn eng (js ''Media Italia'') (shownPrices nprices))"
proof (cases national)
  case None
  with assms(1) show ?thesis by (simp add: nationalColumn_def)
next
  case (Some no)
  with assms(1) assms(2) [OF Some] show ?thesis
    by (simp add: nationalColumn_def generatePriceList_numeric)
qed

lemma legacy_price_list:
  assumes "map_of kv (js ''price_data'') = None"
    and "map_of kv (js ''fuel_price'') = Some (JObj prices)"
    and "numericPrices prices"
  shows \<open>pricesHtml eng (JObj kv) =
           Inr (js ''<div class="price-label">Prezzo Medio</div>'' @
                fuelRows eng 20 (shownPrices prices))\<close>
  using assms
  by (simp add: pricesHtml_def numericPrices_def shownPrices_def priceLoop_numeric)

text \<open>
  Claim C3. For a fuel-price response that carries \<^verbatim>\<open>price_data\<close>, with a regional
  and a national column each present or not and prices that are numbers (or missing),
  \<^verbatim>\<open>updateDashboardUI\<close> renders, in each column, exactly the rows of the four known
  fuel keys whose price is present and strictly greater than zero, in the order gasoline,
  diesel, gpl, methane; a column without such a row is left out. The instance of the
  specification, gasoline 1.8 and diesel 0, follows the theorem: a Benzina row with the
  euro sign and 1.8, and no Gasolio row.
\<close>

theorem updateDashboardUI_price_lists:
  assumes "userLocation p = Some ul" and "gasPrices p = Some g"
    and "locationText eng (JObj kv) = Inr t"
    and "map_of kv (js ''price_data'') = Some (JObj pd)"
    and "map_of pd (js ''regional'') = map_option JObj regional"
    and "map_of pd (js ''national'') = map_option JObj national"
    and "\<And>ro. regional = Some ro \<Longrightarrow>
           map_of ro (js ''region'') = Some (JStr rname)
           \<and> map_of ro (js ''prices'') = Some (JObj rprices) \<and> numericPrices rprices"
    and "\<And>no. national = Some no \<Longrightarrow>
           map_of no (js ''prices'') = Some (JObj nprices) \<and> numericPrices nprices"
  shows \<open>updateDashboardUI eng (JObj kv) p =
           Done (p\<lparr>userLocation := Some (ul\<lparr>textContent := t\<rparr>),
                   gasPrices := Some (g\<lparr>innerHTML :=
                     (let contentHtml =
                        (if regional = None then []
                         else priceColumn eng (js ''Media '' @ rname) (shownPrices rprices)) @
                        (if national = None then []
                         else priceColumn eng (js ''Media Italia'') (shownPrices nprices))
                      in if contentHtml = [] then js ''<p>Prezzi non disponibili.</p>''
                         else js ''<div class="prices-container" style="display: flex; gap: 2rem;">''
                              @ contentHtml @ js ''</div>'')\<rparr>)\<rparr>)\<close>
proof -
  have \<open>pricesHtml eng (JObj kv) =
          Inr (let contentHtml =
                 (if regional = None then []
                  else priceColumn eng (js ''Media '' @ rname) (shownPrices rprices)) @
                 (if national = None then []
                  else priceColumn eng (js ''Media Italia'') (shownPrices nprices))
               in if contentHtml = [] then js ''<p>Prezzi non disponibili.</p>''
                  else js ''<div class="prices-container" style="display: flex; gap: 2rem;">''
                       @ contentHtml @ js ''</div>'')\<close>
    using assms(4)
      regionalColumn_numeric [of pd regional rname rprices eng, OF assms(5) assms(7)]
      nationalColumn_numeric [of pd national nprices eng, OF assms(6) assms(8)]
    by (simp add: pricesHtml_def Let_def)
  with assms(1-3) show ?thesis
    by (simp add: updateDashboardUI_def Let_def)
qed

lemma exampleFuelHtml_rows:
  "includesStr exampleFuelHtml (js ''Benzina'')"
  "includesStr exampleFuelHtml (euro @ js ''1.8'')"
  "\<not> includesStr exampleFuelHtml (js ''Gasolio'')"
  by code_simp+

theorem updateDashboardUI_price_lists_witness:
  "updateDashboardUI exampleEngine exampleFuelData examplePage =
     Done (examplePage
             \<lparr>userLocation := Some (blank\<lparr>textContent := js ''Unknown Location''\<rparr>),
              gasPrices := Some (blank\<lparr>innerHTML := exampleFuelHtml\<rparr>)\<rparr>)
   \<and> includesStr exampleFuelHtml (js ''Benzina'')
   \<and> includesStr exampleFuelHtml (euro @ js ''1.8'')
   \<and> \<not> includesStr exampleFuelHtml (js ''Gasolio'')"
proof -
  let ?prices = "[(js ''gasoline'', JNum onePointEight), (js ''diesel'', JNum (Finite 0))]"
  let ?ro = "[(js ''region'', JStr (js ''Lazio'')), (js ''prices'', JObj ?prices)]"
  let ?pd = "[(js ''regional'', JObj ?ro)]"
  let ?kv = "[(js ''price_data'', JObj ?pd)]"
  have el: "userLocation examplePage = Some blank" "gasPrices examplePage = Some blank"
    by (simp_all add: examplePage_def)
  have loc: "locationText exampleEngine (JObj ?kv) = Inr (js ''Unknown Location'')"
    by (simp add: locationText_def js_def)
  have pd: "map_of ?kv (js ''price_data'') = Some (JObj ?pd)"
    by simp
  have reg: "map_of ?pd (js ''regional'') = map_option JObj (Some ?ro)"
    by simp
  have nat: "map_of ?pd (js ''national'') = map_option JObj None"
    by (simp add: js_def)
  have num: "numericPrices ?prices"
    by (simp add: numericPrices_def fuelMapping_def js_def)
  have ro: "\<And>ro. Some ?ro = Some ro \<Longrightarrow>
              map_of ro (js ''region'') = Some (JStr (js ''Lazio''))
              \<and> map_of ro (js ''prices'') = Some (JObj ?prices) \<and> numericPrices ?prices"
    using num by (auto simp add: js_def)
  have no: "\<And>no. (None :: (jsstring \<times> jsval) list option) = Some no \<Longrightarrow>
              map_of no (js ''prices'') = Some (JObj []) \<and> numericPrices []"
    by simp
  have rows: "shownPrices ?prices = [(js ''Benzina'', onePointEight)]"
    by (simp add: shownPrices_def fuelMapping_def js_def onePointEight_def)
  have html: \<open>js ''<div class="prices-container" style="display: flex; gap: 2rem;">'' @
              priceColumn exampleEngine (js ''Media '' @ js ''Lazio'')
                [(js ''Benzina'', onePointEight)] @ js ''</div>'' = exampleFuelHtml\<close>
    by (simp add: priceColumn_def fuelItem_def exampleFuelHtml_def exampleEngine_def js_def)
  have ne: "priceColumn exampleEngine (js ''Media '' @ js ''Lazio'')
              [(js ''Benzina'', onePointEight)] \<noteq> []"
    by (simp add: priceColumn_def js_def)
  from updateDashboardUI_price_lists [OF el loc pd reg nat ro no] rows html ne
  have "updateDashboardUI exampleEngine (JObj ?kv) examplePage =
     Done (examplePage
             \<lparr>userLocation := Some (blank\<lparr>textContent := js ''Unknown Location''\<rparr>),
              gasPrices := Some (blank\<lparr>innerHTML := exampleFuelHtml\<rparr>)\<rparr>)"
    by (simp add: Let_def)
  then show ?thesis
    using exampleFuelHtml_rows by (simp add: exampleFuelData_def)
qed

end
